theory Spec2Isabelle
  imports Complex_Main
begin

section \<open>Data model (services/api.ts, App.tsx)\<close>

text \<open>
  A JavaScript \<open>number\<close> is modelled as a real: the values are the finite numbers of the
  JSON wire format, and rounding is not modelled. Fields of \<open>Statistics\<close> and
  \<open>HistoryEntry\<close> carry a prefix, since the three records share field names with
  \<open>AppState\<close>.
\<close>

type_synonym number = real

record Individual =
  genes :: string
  fitness :: number

record Statistics =
  stats_generation :: number
  stats_best_fitness :: number
  stats_avg_fitness :: number
  stats_worst_fitness :: number

record HistoryEntry =
  hist_generation :: number
  hist_best_fitness :: number
  hist_avg_fitness :: number

record GAConfig =
  population_size :: number
  mutation_rate :: number
  crossover_rate :: number
  elitism_count :: number

record AppState =
  isInitialized :: bool
  isRunning :: bool
  generation :: number
  target :: string
  population :: "Individual list"
  bestEver :: "Individual option"
  averageFitness :: number
  isComplete :: bool
  history :: "HistoryEntry list"
  error :: "string option"

text \<open>The \<open>data\<close> of the responses to \<open>/initialize\<close> and \<open>/evolve\<close>.\<close>

record InitializeData =
  initial_population :: "Individual list"

record EvolveData =
  top_individuals :: "Individual list"
  statistics :: Statistics
  is_complete :: bool

text \<open>A rejected request: the thrown value, of which the code reads \<open>message\<close> only.\<close>

datatype js_error = JsError (message: "string option")

text \<open>\<open>error.message || fallback\<close>: an undefined or empty message is falsy.\<close>

definition message_or :: "js_error \<Rightarrow> string \<Rightarrow> string" where
  "message_or e fallback =
     (case message e of
        None \<Rightarrow> fallback
      | Some m \<Rightarrow> if m = [] then fallback else m)"

text \<open>The requests of \<open>gaAPI\<close> that the controller issues, in the order it issues them.\<close>

datatype api_call =
    Initialize string GAConfig
  | Evolve number
  | GetHistory
  | GetBest
  | Reset
  | HealthCheck

fun is_evolve :: "api_call \<Rightarrow> bool" where
  "is_evolve (Evolve _) = True"
| "is_evolve _ = False"

datatype console_entry =
    ConsoleLog string
  | ConsoleError string js_error

text \<open>
  The handle of \<open>setInterval\<close> (\<open>NodeJS.Timeout\<close>, an object: always truthy), and the
  whole of what the component owns or reaches: the React state, the ref holding the
  interval handle, the host's table of live intervals with their period in milliseconds
  (the callback is always \<open>evolveGeneration\<close>), the host's next handle, the requests
  issued so far and the console.
\<close>

datatype Timeout = Timeout nat

record sys =
  state :: AppState
  evolutionIntervalRef :: "Timeout option"
  intervals :: "Timeout \<rightharpoonup> nat"
  next_timer :: nat
  calls :: "api_call list"
  console :: "console_entry list"

definition initial_state :: AppState where
  "initial_state =
     \<lparr> isInitialized = False, isRunning = False, generation = 0, target = [],
       population = [], bestEver = None, averageFitness = 0, isComplete = False,
       history = [], error = None \<rparr>"

definition initial_sys :: sys where
  "initial_sys =
     \<lparr> state = initial_state, evolutionIntervalRef = None, intervals = Map.empty,
       next_timer = 0, calls = [], console = [] \<rparr>"

section \<open>Host operations\<close>

definition setState :: "(AppState \<Rightarrow> AppState) \<Rightarrow> sys \<Rightarrow> sys" where
  "setState f s = s\<lparr>state := f (state s)\<rparr>"

definition request :: "api_call \<Rightarrow> sys \<Rightarrow> sys" where
  "request c s = s\<lparr>calls := calls s @ [c]\<rparr>"

definition console_log :: "string \<Rightarrow> sys \<Rightarrow> sys" where
  "console_log m s = s\<lparr>console := console s @ [ConsoleLog m]\<rparr>"

definition console_error :: "string \<Rightarrow> js_error \<Rightarrow> sys \<Rightarrow> sys" where
  "console_error m e s = s\<lparr>console := console s @ [ConsoleError m e]\<rparr>"

definition clearInterval :: "Timeout \<Rightarrow> sys \<Rightarrow> sys" where
  "clearInterval h s = s\<lparr>intervals := (intervals s)(h := None)\<rparr>"

text \<open>\<open>evolutionIntervalRef.current = setInterval(..., delay)\<close>.\<close>

definition setInterval_into_ref :: "nat \<Rightarrow> sys \<Rightarrow> sys" where
  "setInterval_into_ref delay s =
     (let h = Timeout (next_timer s)
      in s\<lparr>intervals := (intervals s)(h \<mapsto> delay),
            next_timer := Suc (next_timer s),
            evolutionIntervalRef := Some h\<rparr>)"

text \<open>
  \<open>if (evolutionIntervalRef.current) { clearInterval(...); evolutionIntervalRef.current = null }\<close>,
  the block that \<open>evolveGeneration\<close> (twice) and \<open>stopEvolution\<close> share.
\<close>

definition cancel_ref :: "sys \<Rightarrow> sys" where
  "cancel_ref s =
     (case evolutionIntervalRef s of
        None \<Rightarrow> s
      | Some h \<Rightarrow> (clearInterval h s)\<lparr>evolutionIntervalRef := None\<rparr>)"

section \<open>The handlers of App.tsx, cut at each \<open>await\<close>\<close>

subsection \<open>handleStart\<close>

definition handleStart_begin :: "string \<Rightarrow> GAConfig \<Rightarrow> sys \<Rightarrow> sys" where
  "handleStart_begin tgt config s =
     request (Initialize tgt config) (setState (\<lambda>prev. prev\<lparr>error := None\<rparr>) s)"

definition handleStart_resume :: "string \<Rightarrow> js_error + InitializeData \<Rightarrow> sys \<Rightarrow> sys" where
  "handleStart_resume tgt r s =
     (case r of
        Inr initResponse \<Rightarrow>
          setInterval_into_ref 100
            (setState (\<lambda>prev. prev\<lparr>isInitialized := True, isRunning := True, target := tgt,
                                  generation := 0,
                                  population := initial_population initResponse\<rparr>) s)
      | Inl e \<Rightarrow>
          setState (\<lambda>prev. prev\<lparr>error := Some (message_or e ''Failed to initialize GA'')\<rparr>) s)"

text \<open>The whole handler, when nothing else runs while the request is outstanding.\<close>

definition handleStart :: "string \<Rightarrow> GAConfig \<Rightarrow> js_error + InitializeData \<Rightarrow> sys \<Rightarrow> sys" where
  "handleStart tgt config r s = handleStart_resume tgt r (handleStart_begin tgt config s)"

subsection \<open>evolveGeneration\<close>

definition evolveGeneration_catch :: "js_error \<Rightarrow> sys \<Rightarrow> sys" where
  "evolveGeneration_catch e s =
     setState (\<lambda>prev. prev\<lparr>isRunning := False\<rparr>)
       (cancel_ref (console_error ''Evolution error:'' e s))"

text \<open>The part after the third \<open>await\<close>: the state update and the completion check.\<close>

definition reconcile :: "EvolveData \<Rightarrow> HistoryEntry list \<Rightarrow> Individual option \<Rightarrow> sys \<Rightarrow> sys" where
  "reconcile evolveResponse hist best s =
     (let s1 = setState (\<lambda>prev. prev\<lparr>population := top_individuals evolveResponse,
                                     generation := stats_generation (statistics evolveResponse),
                                     averageFitness := stats_avg_fitness (statistics evolveResponse),
                                     bestEver := best,
                                     isComplete := is_complete evolveResponse,
                                     history := hist\<rparr>) s
      in if is_complete evolveResponse
         then setState (\<lambda>prev. prev\<lparr>isRunning := False\<rparr>)
                (cancel_ref (console_log ''Evolution complete! Stopping...'' s1))
         else s1)"

definition evolveGeneration_begin :: "sys \<Rightarrow> sys" where
  "evolveGeneration_begin s = request (Evolve 1) s"

definition evolveGeneration_onEvolve :: "js_error + EvolveData \<Rightarrow> sys \<Rightarrow> sys" where
  "evolveGeneration_onEvolve r s =
     (case r of Inl e \<Rightarrow> evolveGeneration_catch e s | Inr _ \<Rightarrow> request GetHistory s)"

definition evolveGeneration_onHistory :: "js_error + HistoryEntry list \<Rightarrow> sys \<Rightarrow> sys" where
  "evolveGeneration_onHistory r s =
     (case r of Inl e \<Rightarrow> evolveGeneration_catch e s | Inr _ \<Rightarrow> request GetBest s)"

definition evolveGeneration_onBest ::
  "EvolveData \<Rightarrow> HistoryEntry list \<Rightarrow> js_error + Individual option \<Rightarrow> sys \<Rightarrow> sys" where
  "evolveGeneration_onBest evolveResponse hist r s =
     (case r of
        Inl e \<Rightarrow> evolveGeneration_catch e s
      | Inr best \<Rightarrow> reconcile evolveResponse hist best s)"

text \<open>
  One whole tick, when nothing else runs while its requests are outstanding: the body of
  the \<open>try\<close>, where a rejected request skips the rest and enters the \<open>catch\<close>.
\<close>

definition evolveGeneration ::
  "js_error + EvolveData \<Rightarrow> js_error + HistoryEntry list \<Rightarrow> js_error + Individual option
     \<Rightarrow> sys \<Rightarrow> sys" where
  "evolveGeneration r1 r2 r3 s =
     (let s1 = request (Evolve 1) s
      in case r1 of
           Inl e \<Rightarrow> evolveGeneration_catch e s1
         | Inr evolveResponse \<Rightarrow>
             (let s2 = request GetHistory s1
              in case r2 of
                   Inl e \<Rightarrow> evolveGeneration_catch e s2
                 | Inr hist \<Rightarrow>
                     (let s3 = request GetBest s2
                      in case r3 of
                           Inl e \<Rightarrow> evolveGeneration_catch e s3
                         | Inr best \<Rightarrow> reconcile evolveResponse hist best s3)))"

subsection \<open>stopEvolution and handleReset\<close>

definition stopEvolution :: "sys \<Rightarrow> sys" where
  "stopEvolution s = setState (\<lambda>prev. prev\<lparr>isRunning := False\<rparr>) (cancel_ref s)"

definition handleReset_begin :: "sys \<Rightarrow> sys" where
  "handleReset_begin s = request Reset (stopEvolution s)"

definition handleReset_resume :: "js_error + unit \<Rightarrow> sys \<Rightarrow> sys" where
  "handleReset_resume r s =
     (case r of
        Inr _ \<Rightarrow> setState (\<lambda>_. initial_state) s
      | Inl e \<Rightarrow> setState (\<lambda>prev. prev\<lparr>error := Some (message_or e ''Failed to reset'')\<rparr>) s)"

definition handleReset :: "js_error + unit \<Rightarrow> sys \<Rightarrow> sys" where
  "handleReset r s = handleReset_resume r (handleReset_begin s)"

subsection \<open>The health check on mount\<close>

definition healthCheck_begin :: "sys \<Rightarrow> sys" where
  "healthCheck_begin s = request HealthCheck s"

definition healthCheck_resume :: "js_error + unit \<Rightarrow> sys \<Rightarrow> sys" where
  "healthCheck_resume r s =
     (case r of
        Inr _ \<Rightarrow> console_log ''API is healthy'' s
      | Inl e \<Rightarrow>
          setState (\<lambda>prev. prev\<lparr>error := Some
              ''Cannot connect to API. Make sure the backend is running on http://localhost:8000''\<rparr>)
            (console_error ''API health check failed:'' e s))"

section \<open>The event loop\<close>

text \<open>
  Each event is one run-to-completion piece of the component: a click, the scheduled
  moment of an interval (its callback runs only while the interval is live), or the
  settling of an outstanding request, which resumes the handler that awaits it with
  the local variables it had (the target of \<open>handleStart\<close>, the responses a tick has
  already received).
\<close>

datatype event =
    Mount
  | HealthSettled "js_error + unit"
  | ClickStart string GAConfig
  | InitializeSettled string "js_error + InitializeData"
  | IntervalElapsed Timeout
  | EvolveSettled "js_error + EvolveData"
  | HistorySettled EvolveData "js_error + HistoryEntry list"
  | BestSettled EvolveData "HistoryEntry list" "js_error + Individual option"
  | ClickStop
  | ClickReset
  | ResetSettled "js_error + unit"

fun step :: "event \<Rightarrow> sys \<Rightarrow> sys" where
  "step Mount s = healthCheck_begin s"
| "step (HealthSettled r) s = healthCheck_resume r s"
| "step (ClickStart tgt config) s = handleStart_begin tgt config s"
| "step (InitializeSettled tgt r) s = handleStart_resume tgt r s"
| "step (IntervalElapsed h) s =
     (case intervals s h of None \<Rightarrow> s | Some _ \<Rightarrow> evolveGeneration_begin s)"
| "step (EvolveSettled r) s = evolveGeneration_onEvolve r s"
| "step (HistorySettled _ r) s = evolveGeneration_onHistory r s"
| "step (BestSettled evolveResponse hist r) s = evolveGeneration_onBest evolveResponse hist r s"
| "step ClickStop s = stopEvolution s"
| "step ClickReset s = handleReset_begin s"
| "step (ResetSettled r) s = handleReset_resume r s"

fun run :: "event list \<Rightarrow> sys \<Rightarrow> sys" where
  "run [] s = s"
| "run (ev # evs) s = run evs (step ev s)"

text \<open>The one event that creates an interval: a fulfilled \<open>initialize\<close>.\<close>

fun starts_session :: "event \<Rightarrow> bool" where
  "starts_session (InitializeSettled _ (Inr _)) = True"
| "starts_session _ = False"

definition evolve_calls :: "sys \<Rightarrow> api_call list" where
  "evolve_calls s = filter is_evolve (calls s)"

text \<open>
  Runs with one session at a time: a fulfilled \<open>initialize\<close> resumes \<open>handleStart\<close>
  only while the ref holds no interval. The code does not enforce this: \<open>handleStart\<close>
  can be entered again while an \<open>initialize\<close> is outstanding.
\<close>

fun one_session :: "event list \<Rightarrow> sys \<Rightarrow> bool" where
  "one_session [] s = True"
| "one_session (ev # evs) s =
     ((if starts_session ev then evolutionIntervalRef s = None else True)
      \<and> one_session evs (step ev s))"

section \<open>The chart (components/FitnessChart.tsx)\<close>




















section \<open>Concrete inputs\<close>

text \<open>A session started from the initial state, and the responses of its first tick.\<close>

definition example_config :: GAConfig where
  "example_config =
     \<lparr> population_size = 50, mutation_rate = 1 / 100, crossover_rate = 8 / 10,
       elitism_count = 2 \<rparr>"

definition example_population :: "Individual list" where
  "example_population = [\<lparr> genes = ''XQ ZE'', fitness = 1 / 5 \<rparr>]"

definition running_sys :: sys where
  "running_sys =
     handleStart ''TO BE'' example_config
       (Inr \<lparr> initial_population = example_population \<rparr>) initial_sys"

definition network_error :: js_error where
  "network_error = JsError (Some ''Network Error'')"

definition next_evolve :: EvolveData where
  "next_evolve =
     \<lparr> top_individuals = [\<lparr> genes = ''TQ BE'', fitness = 4 / 5 \<rparr>],
       statistics = \<lparr> stats_generation = 1, stats_best_fitness = 4 / 5,
                      stats_avg_fitness = 3 / 10, stats_worst_fitness = 0 \<rparr>,
       is_complete = False \<rparr>"

definition next_history :: "HistoryEntry list" where
  "next_history =
     [\<lparr> hist_generation = 1, hist_best_fitness = 4 / 5, hist_avg_fitness = 3 / 10 \<rparr>]"

definition next_best :: "Individual option" where
  "next_best = Some \<lparr> genes = ''TQ BE'', fitness = 4 / 5 \<rparr>"

text \<open>The responses of the tick that finds the target.\<close>

definition final_evolve :: EvolveData where
  "final_evolve =
     \<lparr> top_individuals = [\<lparr> genes = ''TO BE'', fitness = 1 \<rparr>],
       statistics = \<lparr> stats_generation = 42, stats_best_fitness = 1,
                      stats_avg_fitness = 1 / 2, stats_worst_fitness = 1 / 10 \<rparr>,
       is_complete = True \<rparr>"

definition final_history :: "HistoryEntry list" where
  "final_history =
     [\<lparr> hist_generation = 42, hist_best_fitness = 1, hist_avg_fitness = 1 / 2 \<rparr>]"

definition final_best :: "Individual option" where
  "final_best = Some \<lparr> genes = ''TO BE'', fitness = 1 \<rparr>"

text \<open>
  Start is clicked twice before the first \<open>initialize\<close> is fulfilled (the button is shown
  while \<open>isRunning\<close> is false, which it is until then), and both requests are fulfilled:
  the second \<open>setInterval\<close> overwrites the ref, and interval 0 stays live.
\<close>

definition double_start_sys :: sys where
  "double_start_sys =
     run [ClickStart ''TO BE'' example_config, ClickStart ''TO BE'' example_config,
          InitializeSettled ''TO BE'' (Inr \<lparr> initial_population = example_population \<rparr>),
          InitializeSettled ''TO BE'' (Inr \<lparr> initial_population = example_population \<rparr>)]
       initial_sys"

text \<open>Then a tick of interval 1 finds the target.\<close>

definition completed_after_double_start :: sys where
  "completed_after_double_start =
     run [IntervalElapsed (Timeout 1), EvolveSettled (Inr final_evolve),
          HistorySettled final_evolve (Inr final_history),
          BestSettled final_evolve final_history (Inr final_best)] double_start_sys"

text \<open>Or a tick of interval 1 fires and, its first request outstanding, the user stops.\<close>

definition stopped_after_double_start :: sys where
  "stopped_after_double_start =
     run [IntervalElapsed (Timeout 1), ClickStop] double_start_sys"

text \<open>One tick has been reconciled and the user has stopped: results are on display.\<close>

definition displayed_sys :: sys where
  "displayed_sys =
     run [IntervalElapsed (Timeout 0), EvolveSettled (Inr next_evolve),
          HistorySettled next_evolve (Inr next_history),
          BestSettled next_evolve next_history (Inr next_best), ClickStop] running_sys"





section \<open>Unfolding rules and shared lemmas\<close>

lemmas host_defs = setState_def request_def console_log_def console_error_def
  clearInterval_def setInterval_into_ref_def cancel_ref_def

lemmas example_defs = example_config_def example_population_def running_sys_def
  network_error_def next_evolve_def next_history_def next_best_def initial_sys_def
  initial_state_def

lemmas handler_defs = handleStart_begin_def handleStart_resume_def handleStart_def
  evolveGeneration_catch_def reconcile_def evolveGeneration_begin_def
  evolveGeneration_onEvolve_def evolveGeneration_onHistory_def evolveGeneration_onBest_def
  evolveGeneration_def stopEvolution_def handleReset_begin_def handleReset_resume_def
  handleReset_def healthCheck_begin_def healthCheck_resume_def

lemma cancel_ref_fields:
  "state (cancel_ref s) = state s"
  "evolutionIntervalRef (cancel_ref s) = None"
  "calls (cancel_ref s) = calls s"
  "console (cancel_ref s) = console s"
  "next_timer (cancel_ref s) = next_timer s"
  by (simp_all add: cancel_ref_def clearInterval_def split: option.split)

lemma cancel_ref_intervals:
  "intervals (cancel_ref s) =
     (case evolutionIntervalRef s of None \<Rightarrow> intervals s | Some h \<Rightarrow> (intervals s)(h := None))"
  by (simp add: cancel_ref_def clearInterval_def split: option.split)

lemma cancel_ref_empties:
  assumes "dom (intervals s) \<subseteq> set_option (evolutionIntervalRef s)"
  shows "intervals (cancel_ref s) = Map.empty"
proof (cases "evolutionIntervalRef s")
  case None
  with assms show ?thesis by (simp add: cancel_ref_intervals)
next
  case (Some h)
  with assms have "dom (intervals s) \<subseteq> {h}" by simp
  then have "(intervals s)(h := None) = Map.empty"
    by (auto simp: fun_eq_iff dom_def)
  with Some show ?thesis by (simp add: cancel_ref_intervals)
qed

lemma step_quiet:
  assumes "intervals s = Map.empty" and "\<not> starts_session ev"
  shows "intervals (step ev s) = Map.empty"
    and "evolve_calls (step ev s) = evolve_calls s"
    and "\<not> isRunning (state s) \<Longrightarrow> \<not> isRunning (state (step ev s))"
  using assms
  by (cases ev; auto simp: handler_defs host_defs evolve_calls_def initial_state_def Let_def split: sum.splits option.splits)+

lemma run_quiet:
  assumes "intervals s = Map.empty" and "\<forall>ev \<in> set evs. \<not> starts_session ev"
  shows "intervals (run evs s) = Map.empty \<and> evolve_calls (run evs s) = evolve_calls s
    \<and> (\<not> isRunning (state s) \<longrightarrow> \<not> isRunning (state (run evs s)))"
  using assms
proof (induction evs arbitrary: s)
  case Nil
  then show ?case by simp
next
  case (Cons ev evs)
  then have q: "\<not> starts_session ev" and rest: "\<forall>ev \<in> set evs. \<not> starts_session ev" by simp_all
  note st = step_quiet [OF Cons.prems(1) q]
  from Cons.IH [OF st(1) rest] st(2,3) show ?case by simp
qed

text \<open>
  In every run that keeps to one session at a time, the only live interval is the one
  the ref holds.
\<close>

lemma one_interval_step:
  assumes "dom (intervals s) \<subseteq> set_option (evolutionIntervalRef s)"
    and "starts_session ev \<Longrightarrow> evolutionIntervalRef s = None"
  shows "dom (intervals (step ev s)) \<subseteq> set_option (evolutionIntervalRef (step ev s))"
  using assms
  by (cases ev; auto simp: handler_defs host_defs Let_def split: sum.splits option.splits if_splits)

lemma one_interval_run:
  assumes "dom (intervals s) \<subseteq> set_option (evolutionIntervalRef s)"
    and "one_session evs s"
  shows "dom (intervals (run evs s)) \<subseteq> set_option (evolutionIntervalRef (run evs s))"
  using assms
proof (induction evs arbitrary: s)
  case Nil
  then show ?case by simp
next
  case (Cons ev evs)
  from Cons.prems(2) have a: "starts_session ev \<Longrightarrow> evolutionIntervalRef s = None"
    and b: "one_session evs (step ev s)"
    by (simp_all split: if_splits)
  from Cons.IH [OF one_interval_step [OF Cons.prems(1) a] b] show ?case by simp
qed

lemma one_interval_reachable:
  "one_session evs initial_sys \<Longrightarrow>
   dom (intervals (run evs initial_sys)) \<subseteq> set_option (evolutionIntervalRef (run evs initial_sys))"
  by (rule one_interval_run) (simp_all add: initial_sys_def)

text \<open>
  While the interval in the ref is the only live one, each of the three places that
  cancel it (the completion check, the \<open>catch\<close> of a tick, \<open>stopEvolution\<close>) leaves no
  interval live; from there on, whatever follows short of a new fulfilled \<open>initialize\<close>
  issues no \<open>evolve\<close> request and leaves \<open>isRunning\<close> false.
\<close>

lemma cancel_then_quiet:
  assumes "dom (intervals s) \<subseteq> set_option (evolutionIntervalRef s)"
    and "\<forall>ev \<in> set evs. \<not> starts_session ev"
    and "ev = ClickStop
       \<or> ev = EvolveSettled (Inl e) \<or> ev = HistorySettled evolveResponse (Inl e)
       \<or> ev = BestSettled evolveResponse hist (Inl e)
       \<or> ev = BestSettled evolveResponse hist (Inr best) \<and> is_complete evolveResponse"
  shows "intervals (step ev s) = Map.empty
    \<and> evolve_calls (run evs (step ev s)) = evolve_calls s
    \<and> \<not> isRunning (state (run evs (step ev s)))"
proof -
  have i0: "intervals (step ev s) = intervals (cancel_ref s)"
    using assms(3)
    by (auto simp: stopEvolution_def evolveGeneration_onEvolve_def
        evolveGeneration_onHistory_def evolveGeneration_onBest_def evolveGeneration_catch_def
        reconcile_def Let_def console_error_def console_log_def setState_def
        cancel_ref_intervals split: option.split)
  have i: "intervals (step ev s) = Map.empty"
    using cancel_ref_empties [OF assms(1)] by (simp add: i0)
  have n: "\<not> isRunning (state (step ev s))"
    using assms(3)
    by (auto simp: stopEvolution_def evolveGeneration_onEvolve_def
        evolveGeneration_onHistory_def evolveGeneration_onBest_def evolveGeneration_catch_def
        reconcile_def Let_def setState_def)
  have k: "evolve_calls (step ev s) = evolve_calls s"
    using assms(3)
    by (auto simp: stopEvolution_def evolveGeneration_onEvolve_def
        evolveGeneration_onHistory_def evolveGeneration_onBest_def evolveGeneration_catch_def
        reconcile_def Let_def console_error_def console_log_def setState_def
        cancel_ref_fields evolve_calls_def)
  from run_quiet [OF i assms(2)] n k i show ?thesis by simp
qed

section \<open>The controller\<close>

text \<open>
  C1. After a double start the completion check does not end the polling. The tick of
  interval 1 that sees \<open>is_complete\<close> sets \<open>isComplete\<close>, clears interval 1 (the one in
  the ref), empties the ref and sets \<open>isRunning\<close> to false; interval 0 is still live, and
  its next scheduled moment issues another \<open>evolve\<close> request.
\<close>

theorem completion_leaves_leaked_interval:
  "isComplete (state completed_after_double_start)
   \<and> \<not> isRunning (state completed_after_double_start)
   \<and> evolutionIntervalRef completed_after_double_start = None
   \<and> intervals completed_after_double_start (Timeout 1) = None
   \<and> intervals completed_after_double_start (Timeout 0) = Some 100
   \<and> evolve_calls completed_after_double_start = [Evolve 1]
   \<and> evolve_calls (step (IntervalElapsed (Timeout 0)) completed_after_double_start)
       = [Evolve 1, Evolve 1]"
  by (simp add: completed_after_double_start_def double_start_sys_def example_defs
      final_evolve_def final_history_def final_best_def handler_defs host_defs
      evolve_calls_def Let_def)

text \<open>
  C2. After a double start \<open>stopEvolution\<close> does not end the polling. With a tick of
  interval 1 outstanding, the stop clears interval 1 (the one in the ref), empties the
  ref and sets \<open>isRunning\<close> to false; interval 0 is still live, and its next scheduled
  moment issues another \<open>evolve\<close> request. The outstanding tick, reconciled after the
  stop, leaves \<open>isRunning\<close> false.
\<close>

theorem stop_leaves_leaked_interval:
  "\<not> isRunning (state stopped_after_double_start)
   \<and> evolutionIntervalRef stopped_after_double_start = None
   \<and> intervals stopped_after_double_start (Timeout 1) = None
   \<and> intervals stopped_after_double_start (Timeout 0) = Some 100
   \<and> evolve_calls stopped_after_double_start = [Evolve 1]
   \<and> evolve_calls (step (IntervalElapsed (Timeout 0)) stopped_after_double_start)
       = [Evolve 1, Evolve 1]
   \<and> \<not> isRunning (state (run [EvolveSettled (Inr next_evolve),
                                  HistorySettled next_evolve (Inr next_history),
                                  BestSettled next_evolve next_history (Inr next_best)]
                             stopped_after_double_start))"
  by (simp add: stopped_after_double_start_def double_start_sys_def example_defs
      handler_defs host_defs evolve_calls_def Let_def)

text \<open>
  C3. A scheduled moment of a live interval issues \<open>evolve\<close>; when that is fulfilled,
  \<open>getHistory\<close>; when that is fulfilled, \<open>getBest\<close>; the state is untouched until the
  third response, and is then replaced field by field: \<open>population\<close> by
  \<open>top_individuals\<close>, \<open>generation\<close> by \<open>statistics.generation\<close>, \<open>averageFitness\<close> by
  \<open>statistics.avg_fitness\<close>, \<open>bestEver\<close> by the fetched best, \<open>history\<close> by the fetched
  history (and \<open>isComplete\<close> by \<open>is_complete\<close>, with \<open>isRunning\<close> set to false when it
  holds). The four steps together are \<open>evolveGeneration\<close> with three fulfilled requests.
\<close>

theorem tick_calls_then_merges:
  assumes "intervals s h = Some period"
  shows "calls (run [IntervalElapsed h] s) = calls s @ [Evolve 1]
    \<and> calls (run [IntervalElapsed h, EvolveSettled (Inr evolveResponse)] s)
        = calls s @ [Evolve 1, GetHistory]
    \<and> calls (run [IntervalElapsed h, EvolveSettled (Inr evolveResponse),
                   HistorySettled evolveResponse (Inr hist)] s)
        = calls s @ [Evolve 1, GetHistory, GetBest]
    \<and> state (run [IntervalElapsed h, EvolveSettled (Inr evolveResponse),
                   HistorySettled evolveResponse (Inr hist)] s) = state s
    \<and> run [IntervalElapsed h, EvolveSettled (Inr evolveResponse),
            HistorySettled evolveResponse (Inr hist),
            BestSettled evolveResponse hist (Inr best)] s
        = evolveGeneration (Inr evolveResponse) (Inr hist) (Inr best) s
    \<and> calls (evolveGeneration (Inr evolveResponse) (Inr hist) (Inr best) s)
        = calls s @ [Evolve 1, GetHistory, GetBest]
    \<and> state (evolveGeneration (Inr evolveResponse) (Inr hist) (Inr best) s)
        = (state s)\<lparr>population := top_individuals evolveResponse,
                     generation := stats_generation (statistics evolveResponse),
                     averageFitness := stats_avg_fitness (statistics evolveResponse),
                     bestEver := best,
                     history := hist,
                     isComplete := is_complete evolveResponse,
                     isRunning := isRunning (state s) \<and> \<not> is_complete evolveResponse\<rparr>"
  using assms
  by (simp add: handler_defs host_defs Let_def split: option.split)

theorem tick_calls_then_merges_witness:
  "intervals running_sys (Timeout 0) = Some 100
   \<and> calls (evolveGeneration (Inr next_evolve) (Inr next_history) (Inr next_best) running_sys)
       = [Initialize ''TO BE'' example_config, Evolve 1, GetHistory, GetBest]
   \<and> state (run [IntervalElapsed (Timeout 0), EvolveSettled (Inr next_evolve),
                  HistorySettled next_evolve (Inr next_history),
                  BestSettled next_evolve next_history (Inr next_best)] running_sys)
       = \<lparr> isInitialized = True, isRunning = True, generation = 1, target = ''TO BE'',
           population = [\<lparr> genes = ''TQ BE'', fitness = 4 / 5 \<rparr>],
           bestEver = Some \<lparr> genes = ''TQ BE'', fitness = 4 / 5 \<rparr>,
           averageFitness = 3 / 10, isComplete = False,
           history = [\<lparr> hist_generation = 1, hist_best_fitness = 4 / 5,
                        hist_avg_fitness = 3 / 10 \<rparr>],
           error = None \<rparr>"
  using tick_calls_then_merges [of running_sys "Timeout 0" 100 next_evolve next_history
      next_best]
  by (simp add: example_defs handler_defs host_defs Let_def)

text \<open>
  C4, as stated, fails where the remote \<open>reset\<close> is rejected: with one generation on
  display, \<open>handleReset\<close> leaves \<open>generation\<close>, \<open>population\<close>, \<open>bestEver\<close>, \<open>history\<close> and
  \<open>isInitialized\<close> as they were and sets \<open>error\<close>.
\<close>

theorem reset_failure_keeps_fields_counterexample:
  "generation (state (handleReset (Inl network_error) displayed_sys)) = 1
   \<and> population (state (handleReset (Inl network_error) displayed_sys))
       = [\<lparr> genes = ''TQ BE'', fitness = 4 / 5 \<rparr>]
   \<and> isInitialized (state (handleReset (Inl network_error) displayed_sys))
   \<and> \<not> (generation (state (handleReset (Inl network_error) displayed_sys)) = 0
        \<and> population (state (handleReset (Inl network_error) displayed_sys)) = []
        \<and> bestEver (state (handleReset (Inl network_error) displayed_sys)) = None
        \<and> history (state (handleReset (Inl network_error) displayed_sys)) = []
        \<and> error (state (handleReset (Inl network_error) displayed_sys)) = None
        \<and> \<not> isInitialized (state (handleReset (Inl network_error) displayed_sys))
        \<and> \<not> isRunning (state (handleReset (Inl network_error) displayed_sys)))"
  by (simp add: example_defs displayed_sys_def handler_defs host_defs Let_def)

text \<open>
  C4, amended. When the remote \<open>reset\<close> is fulfilled, from every prior state the state is
  the initial one: \<open>generation = 0\<close>, \<open>population = []\<close>, \<open>bestEver = null\<close>,
  \<open>history = []\<close>, \<open>error = null\<close>, neither initialized nor running. When it is rejected,
  \<open>isRunning\<close> is false and \<open>error\<close> is the failure message (or \<open>Failed to reset\<close>), and
  every other field keeps its value. Either way the interval held in the ref was cleared
  and the ref emptied before the request was issued.
\<close>

theorem reset_clears_when_remote_succeeds:
  "state (handleReset (Inr u) s) = initial_state
   \<and> generation (state (handleReset (Inr u) s)) = 0
   \<and> population (state (handleReset (Inr u) s)) = []
   \<and> bestEver (state (handleReset (Inr u) s)) = None
   \<and> history (state (handleReset (Inr u) s)) = []
   \<and> error (state (handleReset (Inr u) s)) = None
   \<and> \<not> isInitialized (state (handleReset (Inr u) s))
   \<and> \<not> isRunning (state (handleReset (Inr u) s))
   \<and> \<not> isComplete (state (handleReset (Inr u) s))
   \<and> state (handleReset (Inl e) s)
       = (state s)\<lparr>isRunning := False, error := Some (message_or e ''Failed to reset'')\<rparr>
   \<and> evolutionIntervalRef (handleReset r s) = None
   \<and> intervals (handleReset r s)
       = (case evolutionIntervalRef s of
            None \<Rightarrow> intervals s
          | Some h \<Rightarrow> (intervals s)(h := None))
   \<and> calls (handleReset r s) = calls s @ [Reset]"
  by (cases r)
    (simp_all add: handleReset_def handleReset_begin_def handleReset_resume_def
      stopEvolution_def setState_def request_def cancel_ref_fields cancel_ref_intervals
      initial_state_def)

text \<open>
  C5, as stated, fails in its last part: a tick whose \<open>evolve\<close> request is rejected leaves
  \<open>error\<close> empty; of the state, only \<open>isRunning\<close> changes.
\<close>

theorem tick_failure_not_recorded_counterexample:
  "error (state (evolveGeneration (Inl network_error) (Inr next_history) (Inr next_best)
      running_sys)) = None
   \<and> error (state (evolveGeneration (Inl network_error) (Inr next_history) (Inr next_best)
      running_sys)) \<noteq> Some ''Network Error''
   \<and> state (evolveGeneration (Inl network_error) (Inr next_history) (Inr next_best)
      running_sys) = (state running_sys)\<lparr>isRunning := False\<rparr>"
  by (simp add: example_defs handler_defs host_defs Let_def)

text \<open>
  C5, amended. If any of the three requests of a tick is rejected, no later request of
  that tick is issued, the interval held in the ref is cleared and the ref emptied,
  \<open>isRunning\<close> is set to false, the thrown value is written to the console, and the state
  is otherwise unchanged: \<open>error\<close> keeps its value. This holds from every state, for the
  whole tick and for the step that resumes it.
\<close>

theorem tick_failure_stops_and_logs:
  "evolveGeneration (Inl e) r2 r3 s
     = s\<lparr>state := (state s)\<lparr>isRunning := False\<rparr>,
          evolutionIntervalRef := None,
          intervals := (case evolutionIntervalRef s of
                          None \<Rightarrow> intervals s
                        | Some h \<Rightarrow> (intervals s)(h := None)),
          calls := calls s @ [Evolve 1],
          console := console s @ [ConsoleError ''Evolution error:'' e]\<rparr>
   \<and> evolveGeneration (Inr evolveResponse) (Inl e) r3 s
     = s\<lparr>state := (state s)\<lparr>isRunning := False\<rparr>,
          evolutionIntervalRef := None,
          intervals := (case evolutionIntervalRef s of
                          None \<Rightarrow> intervals s
                        | Some h \<Rightarrow> (intervals s)(h := None)),
          calls := calls s @ [Evolve 1, GetHistory],
          console := console s @ [ConsoleError ''Evolution error:'' e]\<rparr>
   \<and> evolveGeneration (Inr evolveResponse) (Inr hist) (Inl e) s
     = s\<lparr>state := (state s)\<lparr>isRunning := False\<rparr>,
          evolutionIntervalRef := None,
          intervals := (case evolutionIntervalRef s of
                          None \<Rightarrow> intervals s
                        | Some h \<Rightarrow> (intervals s)(h := None)),
          calls := calls s @ [Evolve 1, GetHistory, GetBest],
          console := console s @ [ConsoleError ''Evolution error:'' e]\<rparr>
   \<and> error (state (evolveGeneration (Inl e) r2 r3 s)) = error (state s)
   \<and> error (state (evolveGeneration (Inr evolveResponse) (Inl e) r3 s)) = error (state s)
   \<and> error (state (evolveGeneration (Inr evolveResponse) (Inr hist) (Inl e) s))
       = error (state s)
   \<and> step (EvolveSettled (Inl e)) s
     = s\<lparr>state := (state s)\<lparr>isRunning := False\<rparr>,
          evolutionIntervalRef := None,
          intervals := (case evolutionIntervalRef s of
                          None \<Rightarrow> intervals s
                        | Some h \<Rightarrow> (intervals s)(h := None)),
          console := console s @ [ConsoleError ''Evolution error:'' e]\<rparr>
   \<and> step (HistorySettled evolveResponse (Inl e)) s = step (EvolveSettled (Inl e)) s
   \<and> step (BestSettled evolveResponse hist (Inl e)) s = step (EvolveSettled (Inl e)) s"
  by (simp add: evolveGeneration_def evolveGeneration_onEvolve_def
      evolveGeneration_onHistory_def evolveGeneration_onBest_def evolveGeneration_catch_def
      host_defs Let_def split: option.split)

text \<open>
  C6. \<open>handleStart\<close> with a fulfilled \<open>initialize\<close>, from any state (the idle one among
  them): the request is issued, \<open>error\<close> is cleared, \<open>population\<close> is the returned
  \<open>initial_population\<close>, \<open>generation\<close> is 0, \<open>target\<close> is the given one, the session is
  initialized and running, and a new interval of period 100 is live and held in the ref;
  its scheduled moment issues \<open>evolve\<close>.
\<close>

theorem start_success_begins_polling:
  "handleStart tgt config (Inr initResponse) s
     = s\<lparr>state := (state s)\<lparr>isInitialized := True, isRunning := True, generation := 0,
                              target := tgt, population := initial_population initResponse,
                              error := None\<rparr>,
          evolutionIntervalRef := Some (Timeout (next_timer s)),
          intervals := (intervals s)(Timeout (next_timer s) \<mapsto> 100),
          next_timer := Suc (next_timer s),
          calls := calls s @ [Initialize tgt config]\<rparr>
   \<and> population (state (handleStart tgt config (Inr initResponse) s))
       = initial_population initResponse
   \<and> generation (state (handleStart tgt config (Inr initResponse) s)) = 0
   \<and> target (state (handleStart tgt config (Inr initResponse) s)) = tgt
   \<and> error (state (handleStart tgt config (Inr initResponse) s)) = None
   \<and> isInitialized (state (handleStart tgt config (Inr initResponse) s))
   \<and> isRunning (state (handleStart tgt config (Inr initResponse) s))
   \<and> calls (step (IntervalElapsed (Timeout (next_timer s)))
        (handleStart tgt config (Inr initResponse) s))
       = calls s @ [Initialize tgt config, Evolve 1]"
  by (simp add: handleStart_def handleStart_begin_def handleStart_resume_def
      evolveGeneration_begin_def host_defs Let_def)

text \<open>
  C7. \<open>handleStart\<close> with a rejected \<open>initialize\<close>: \<open>isInitialized\<close> and \<open>isRunning\<close> keep
  their values (false, from the idle state), \<open>error\<close> is the failure message
  (\<open>Failed to initialize GA\<close> when the thrown value has none), and neither the ref nor
  the table of live intervals changes.
\<close>

theorem start_failure_stays_idle:
  "handleStart tgt config (Inl e) s
     = s\<lparr>state := (state s)\<lparr>error := Some (message_or e ''Failed to initialize GA'')\<rparr>,
          calls := calls s @ [Initialize tgt config]\<rparr>
   \<and> isInitialized (state (handleStart tgt config (Inl e) s)) = isInitialized (state s)
   \<and> isRunning (state (handleStart tgt config (Inl e) s)) = isRunning (state s)
   \<and> evolutionIntervalRef (handleStart tgt config (Inl e) s) = evolutionIntervalRef s
   \<and> intervals (handleStart tgt config (Inl e) s) = intervals s
   \<and> error (state (handleStart tgt config (Inl (JsError (Some (c # cs)))) s)) = Some (c # cs)
   \<and> error (state (handleStart tgt config (Inl (JsError None)) s))
       = Some ''Failed to initialize GA''
   \<and> state (handleStart tgt config (Inl e) initial_sys)
       = initial_state\<lparr>error := Some (message_or e ''Failed to initialize GA'')\<rparr>
   \<and> intervals (handleStart tgt config (Inl e) initial_sys) = Map.empty"
  by (simp add: handleStart_def handleStart_begin_def handleStart_resume_def
      message_or_def initial_sys_def host_defs)

text \<open>
  C8. Reconciling the same response twice gives the same state (and the same ref and
  live intervals) as reconciling it once.
\<close>

theorem reconcile_idempotent:
  "state (reconcile evolveResponse hist best (reconcile evolveResponse hist best s))
     = state (reconcile evolveResponse hist best s)
   \<and> evolutionIntervalRef (reconcile evolveResponse hist best (reconcile evolveResponse hist best s))
     = evolutionIntervalRef (reconcile evolveResponse hist best s)
   \<and> intervals (reconcile evolveResponse hist best (reconcile evolveResponse hist best s))
     = intervals (reconcile evolveResponse hist best s)
   \<and> state (step (BestSettled evolveResponse hist (Inr best))
        (step (BestSettled evolveResponse hist (Inr best)) s))
     = state (step (BestSettled evolveResponse hist (Inr best)) s)"
  by (simp add: evolveGeneration_onBest_def reconcile_def Let_def host_defs
      split: option.split)

text \<open>
  C10. \<open>stopEvolution\<close> changes \<open>isRunning\<close> only: every other field of the state keeps
  its value.
\<close>

theorem stop_changes_only_running:
  "state (stopEvolution s) = (state s)\<lparr>isRunning := False\<rparr>
   \<and> generation (state (stopEvolution s)) = generation (state s)
   \<and> target (state (stopEvolution s)) = target (state s)
   \<and> population (state (stopEvolution s)) = population (state s)
   \<and> bestEver (state (stopEvolution s)) = bestEver (state s)
   \<and> averageFitness (state (stopEvolution s)) = averageFitness (state s)
   \<and> isComplete (state (stopEvolution s)) = isComplete (state s)
   \<and> history (state (stopEvolution s)) = history (state s)
   \<and> error (state (stopEvolution s)) = error (state s)
   \<and> isInitialized (state (stopEvolution s)) = isInitialized (state s)
   \<and> \<not> isRunning (state (stopEvolution s))"
  by (simp add: stopEvolution_def setState_def cancel_ref_fields)

section \<open>The chart\<close>






end
